theory Spec2Isabelle
  imports Complex_Main "HOL-Library.Word"
begin

section \<open>Session billing: the data model\<close>

text \<open>
  The session controller lives in \<^verbatim>\<open>src/components/SessionManagement.tsx\<close>
  (\<^verbatim>\<open>startSession\<close>, \<^verbatim>\<open>endSession\<close>); the tables it reads and writes are declared
  by the SQL migrations. The model keeps the two tables the controller touches,
  \<^verbatim>\<open>user_sessions\<close> and \<^verbatim>\<open>user_subscriptions\<close>, as lists of rows.

  Conventions of the model:
  \<^item> a \<^verbatim>\<open>uuid\<close> column is a 128-bit word;
  \<^item> a \<^verbatim>\<open>timestamptz\<close> is the number of milliseconds since the epoch, which is what
    \<^verbatim>\<open>Date.getTime()\<close> hands to the arithmetic; a \<^verbatim>\<open>date\<close> is a day number;
  \<^item> an \<^verbatim>\<open>integer\<close> column is an \<open>int\<close> that the table takes only within 32 bits
    (\<open>integer_column\<close> below), a \<^verbatim>\<open>numeric\<close> column a \<open>rat\<close>, a nullable column an
    \<open>option\<close>;
  \<^item> arithmetic is exact, where the code computes on doubles. The two agree on whole
    numbers up to \<open>2 ^ 53\<close>, which covers the millisecond, minute and hour counts of
    every update the table takes; a balance with a fractional part is outside that
    agreement (see \<open>newHoursRemaining\<close>);
  \<^item> every read and write reaches the table: network failures, row-level policies and
    the \<^verbatim>\<open>users\<close> table (foreign keys, contact fields) are outside the model.
\<close>

type_synonym uuid = "128 word"

datatype session_status = SessionActive | SessionCompleted

datatype subscription_status = SubActive | SubExpired | SubCancelled

text \<open>
  Table \<^verbatim>\<open>user_sessions\<close>. The columns \<^verbatim>\<open>id\<close>, \<^verbatim>\<open>user_id\<close> and \<^verbatim>\<open>status\<close> exist in both
  tables; the fields carry the table's name to keep them apart.
\<close>

record session =
  session_id :: uuid
  session_user_id :: uuid
  user_subscription_id :: "uuid option"
  start_time :: int
  end_time :: "int option"
  duration_minutes :: "int option"
  hours_deducted :: rat
  session_status :: session_status
  started_by :: uuid
  ended_by :: "uuid option"

text \<open>Table \<^verbatim>\<open>user_subscriptions\<close>.\<close>

record subscription =
  subscription_id :: uuid
  subscription_user_id :: uuid
  subscription_plan_id :: uuid
  hours_remaining :: rat
  start_date :: int
  end_date :: int
  subscription_status :: subscription_status

text \<open>
  The state an operation works on: the two tables, and the lines written with
  \<^verbatim>\<open>console.error\<close> (each line is recorded by its label).
\<close>

record world =
  user_sessions :: "session list"
  user_subscriptions :: "subscription list"
  console :: "string list"

text \<open>
  What an operation takes from its surroundings: the browser's clock (\<^verbatim>\<open>new Date()\<close>),
  the database's clock (\<^verbatim>\<open>now()\<close>, the default of \<^verbatim>\<open>start_time\<close>), the value
  \<^verbatim>\<open>gen_random_uuid()\<close> gives the inserted row, the signed-in staff member
  (\<^verbatim>\<open>user?.id\<close> of the auth context, absent when nobody is signed in), and whether the
  \<^verbatim>\<open>fetch\<close> to the webhook rejects.
\<close>

record env =
  client_now :: int
  server_now :: int
  gen_random_uuid :: uuid
  auth_user :: "uuid option"
  fetch_rejects :: bool

text \<open>
  The outcome shown to the staff member as a toast. The error toasts are
  \<^item> \<open>AlreadyActive\<close>: \<^verbatim>\<open>User already has an active session\<close>,
  \<^item> \<open>NoSubscription\<close>: \<^verbatim>\<open>User does not have an active subscription\<close>,
  \<^item> \<open>InsufficientBalance\<close>: \<^verbatim>\<open>User has no remaining hours in their subscription\<close>,
  \<^item> \<open>StoreError\<close>: \<^verbatim>\<open>Failed to start session\<close> or \<^verbatim>\<open>Failed to end session\<close>, the
    toast of the outer \<^verbatim>\<open>catch\<close>.
\<close>

datatype error = AlreadyActive | NoSubscription | InsufficientBalance | StoreError

section \<open>The store's singular reads\<close>

text \<open>
  \<^verbatim>\<open>.single()\<close> asks PostgREST for one object. The answer is the row when the query
  selects exactly one row; when it selects none, or more than one, the answer is
  \<^verbatim>\<open>data = null\<close> with the error code \<^verbatim>\<open>PGRST116\<close> (``JSON object requested, multiple
  (or no) rows returned'').
\<close>

definition single :: "'a list \<Rightarrow> string + 'a" where
  "single rows = (case rows of [r] \<Rightarrow> Inr r | _ \<Rightarrow> Inl ''PGRST116'')"

text \<open>\<^verbatim>\<open>new Date().toISOString().split('T')[0]\<close>: the UTC calendar day of an instant.\<close>

definition utc_date :: "int \<Rightarrow> int" where
  "utc_date ms = ms div (24 * 60 * 60 * 1000)"

text \<open>The outer \<^verbatim>\<open>catch\<close> of an operation: one console line, and the generic toast.\<close>

definition caught :: "string \<Rightarrow> world \<Rightarrow> (error + 'a) \<times> world" where
  "caught label w = (Inl StoreError, w\<lparr>console := console w @ [label]\<rparr>)"

section \<open>Starting a session\<close>

text \<open>
  The insert names \<^verbatim>\<open>user_id\<close>, \<^verbatim>\<open>user_subscription_id\<close>, \<^verbatim>\<open>started_by\<close> and \<^verbatim>\<open>status\<close>;
  the other columns take their defaults (\<^verbatim>\<open>id\<close>, \<^verbatim>\<open>start_time = now()\<close>,
  \<^verbatim>\<open>hours_deducted = 0\<close>, the rest null). The table refuses the row when \<^verbatim>\<open>started_by\<close>
  is missing (\<^verbatim>\<open>NOT NULL\<close>) or when the \<^verbatim>\<open>id\<close> is taken (primary key).
\<close>

definition insert_session :: "env \<Rightarrow> uuid \<Rightarrow> uuid \<Rightarrow> session list \<Rightarrow> string + session list" where
  "insert_session e userId subId rows =
     (case auth_user e of
        None \<Rightarrow> Inl ''23502''
      | Some staff \<Rightarrow>
          if gen_random_uuid e \<in> set (map session_id rows) then Inl ''23505''
          else Inr (rows @
            [\<lparr>session_id = gen_random_uuid e, session_user_id = userId,
              user_subscription_id = Some subId, start_time = server_now e,
              end_time = None, duration_minutes = None, hours_deducted = 0,
              session_status = SessionActive, started_by = staff, ended_by = None\<rparr>]))"

definition startSession :: "env \<Rightarrow> uuid \<Rightarrow> world \<Rightarrow> (error + unit) \<times> world" where
  "startSession e userId w =
     (case single (filter (\<lambda>s. session_user_id s = userId \<and> session_status s = SessionActive)
                     (user_sessions w)) of
        Inr existingSession \<Rightarrow> (Inl AlreadyActive, w)
      | Inl checkError \<Rightarrow>
          if checkError \<noteq> ''PGRST116'' then caught ''Error starting session:'' w
          else
            (case single (filter (\<lambda>u. subscription_user_id u = userId
                                      \<and> subscription_status u = SubActive
                                      \<and> end_date u \<ge> utc_date (client_now e))
                            (user_subscriptions w)) of
               Inl subError \<Rightarrow>
                 if subError \<noteq> ''PGRST116'' then caught ''Error starting session:'' w
                 else (Inl NoSubscription, w)
             | Inr subscription \<Rightarrow>
                 if hours_remaining subscription \<le> 0 then (Inl InsufficientBalance, w)
                 else
                   (case insert_session e userId (subscription_id subscription) (user_sessions w) of
                      Inl error \<Rightarrow> caught ''Error starting session:'' w
                    | Inr rows \<Rightarrow> (Inr (), w\<lparr>user_sessions := rows\<rparr>))))"

section \<open>Ending a session\<close>

text \<open>
  \<^verbatim>\<open>Math.ceil((endTime.getTime() - startTime.getTime()) / (1000 * 60))\<close> and
  \<^verbatim>\<open>Math.ceil(durationMinutes / 60)\<close>.
\<close>

definition durationMinutes :: "int \<Rightarrow> int \<Rightarrow> int" where
  "durationMinutes endTime startTime = \<lceil>(of_int (endTime - startTime) :: rat) / (1000 * 60)\<rceil>"

definition hoursDeducted :: "int \<Rightarrow> int" where
  "hoursDeducted minutes = \<lceil>(of_int minutes :: rat) / 60\<rceil>"

text \<open>
  The update of the session row, \<^verbatim>\<open>.update({...}).eq('id', sessionId)\<close>. \<^verbatim>\<open>ended_by\<close> is
  \<^verbatim>\<open>user?.id\<close>: with nobody signed in the key is undefined, it is left out of the
  request, and the column keeps its value.
\<close>

definition complete_session :: "env \<Rightarrow> int \<Rightarrow> int \<Rightarrow> session \<Rightarrow> session" where
  "complete_session e minutes hours s =
     s\<lparr>end_time := Some (client_now e),
       duration_minutes := Some minutes,
       hours_deducted := of_int hours,
       session_status := SessionCompleted,
       ended_by := (case auth_user e of None \<Rightarrow> ended_by s | Some staff \<Rightarrow> Some staff)\<rparr>"

text \<open>The rows of the table once the update has been taken.\<close>

definition updated_sessions :: "env \<Rightarrow> uuid \<Rightarrow> int \<Rightarrow> int \<Rightarrow> session list \<Rightarrow> session list" where
  "updated_sessions e sessionId minutes hours rows =
     map (\<lambda>s. if session_id s = sessionId then complete_session e minutes hours s else s) rows"

text \<open>
  \<^verbatim>\<open>duration_minutes\<close> is an \<^verbatim>\<open>integer\<close> column: a value that does not fit 32 bits is
  refused with \<^verbatim>\<open>22003\<close> (numeric value out of range), no row is changed, and the
  call answers with \<^verbatim>\<open>updateError\<close>. \<^verbatim>\<open>hours_deducted\<close> is \<^verbatim>\<open>numeric\<close> and takes any
  value.
\<close>

definition integer_column :: "int \<Rightarrow> bool" where
  "integer_column n \<longleftrightarrow> - (2 ^ 31) \<le> n \<and> n < 2 ^ 31"

definition update_session ::
  "env \<Rightarrow> uuid \<Rightarrow> int \<Rightarrow> int \<Rightarrow> session list \<Rightarrow> string + session list" where
  "update_session e sessionId minutes hours rows =
     (if integer_column minutes then Inr (updated_sessions e sessionId minutes hours rows)
      else Inl ''22003'')"

text \<open>
  \<^verbatim>\<open>Math.max(0, session.user_subscription.hours_remaining - hoursDeducted)\<close>. The code
  subtracts doubles, the model rationals. For a balance that is a whole number of
  hours of magnitude at most \<open>2 ^ 52\<close> the two give the same number, and JSON carries
  it unchanged in both directions. For a balance with a fractional part the number
  the code stores can differ from the exact one in its last digits (\<^verbatim>\<open>2.3 - 2\<close> is
  stored as \<^verbatim>\<open>0.2999999999999998\<close>).
\<close>

definition newHoursRemaining :: "rat \<Rightarrow> int \<Rightarrow> rat" where
  "newHoursRemaining previous hours = max 0 (previous - of_int hours)"

definition update_subscription :: "uuid \<Rightarrow> rat \<Rightarrow> subscription list \<Rightarrow> subscription list" where
  "update_subscription subId hours rows =
     map (\<lambda>u. if subscription_id u = subId then u\<lparr>hours_remaining := hours\<rparr> else u) rows"

text \<open>
  The webhook call sits in a \<^verbatim>\<open>try\<close> of its own: a rejected \<^verbatim>\<open>fetch\<close> writes one console
  line and nothing else.
\<close>

definition notify_webhook :: "env \<Rightarrow> world \<Rightarrow> world" where
  "notify_webhook e w =
     (if fetch_rejects e then w\<lparr>console := console w @ [''Webhook failed:'']\<rparr> else w)"

text \<open>
  The end operation. The session is read by its id together with its subscription (the
  embedded \<^verbatim>\<open>user_subscription\<close>, null when the link is null or the row is gone). The
  session row is written first, the subscription second; dereferencing a null
  \<^verbatim>\<open>user_subscription\<close> throws after the session row has been written. A refused
  update of the session row is thrown (\<^verbatim>\<open>if (updateError) throw updateError\<close>) before
  anything is written. On success the toast reports the minutes and the hours
  deducted, which are the value returned here.
\<close>

definition endSession :: "env \<Rightarrow> uuid \<Rightarrow> world \<Rightarrow> (error + int \<times> int) \<times> world" where
  "endSession e sessionId w =
     (case single (filter (\<lambda>s. session_id s = sessionId) (user_sessions w)) of
        Inl sessionError \<Rightarrow> caught ''Error ending session:'' w
      | Inr session \<Rightarrow>
          let minutes = durationMinutes (client_now e) (start_time session);
              hours = hoursDeducted minutes
          in (case update_session e sessionId minutes hours (user_sessions w) of
                Inl updateError \<Rightarrow> caught ''Error ending session:'' w
              | Inr rows \<Rightarrow>
                  let w1 = w\<lparr>user_sessions := rows\<rparr>
                  in (case user_subscription_id session of
                        None \<Rightarrow> (Inr (minutes, hours), notify_webhook e w1)
                      | Some subId \<Rightarrow>
                          (case find (\<lambda>u. subscription_id u = subId) (user_subscriptions w) of
                             None \<Rightarrow> caught ''Error ending session:'' w1
                           | Some user_subscription \<Rightarrow>
                               (Inr (minutes, hours),
                                notify_webhook e
                                  (w1\<lparr>user_subscriptions :=
                                        update_subscription subId
                                          (newHoursRemaining
                                             (hours_remaining user_subscription) hours)
                                          (user_subscriptions w1)\<rparr>))))))"

section \<open>Sequences of operations\<close>

datatype action = StartSession uuid | EndSession uuid

fun perform :: "env \<times> action \<Rightarrow> world \<Rightarrow> world" where
  "perform (e, StartSession userId) w = snd (startSession e userId w)"
| "perform (e, EndSession sessionId) w = snd (endSession e sessionId w)"

text \<open>The states a sequence of operations passes through, the starting state first.\<close>

fun trace :: "(env \<times> action) list \<Rightarrow> world \<Rightarrow> world list" where
  "trace [] w = [w]"
| "trace (a # as) w = w # trace as (perform a w)"

section \<open>Predicates used to state the properties\<close>

text \<open>
  One row across one operation: the row keeps its id, and its status either stays or
  goes from active to completed.
\<close>

definition row_step :: "session \<Rightarrow> session \<Rightarrow> bool" where
  "row_step s s' \<longleftrightarrow>
     session_id s' = session_id s \<and>
     (session_status s' = session_status s \<or>
      (session_status s = SessionActive \<and> session_status s' = SessionCompleted))"

text \<open>
  The table across one operation: every old row is still there, in place, related by
  \<open>row_step\<close>; the rows behind them are new, and new rows are active.
\<close>

fun table_step :: "session list \<Rightarrow> session list \<Rightarrow> bool" where
  "table_step [] new = list_all (\<lambda>s. session_status s = SessionActive) new"
| "table_step (s # rows) [] = False"
| "table_step (s # rows) (s' # rows') = (row_step s s' \<and> table_step rows rows')"

fun steps_ok :: "world list \<Rightarrow> bool" where
  "steps_ok (w # w' # ws) =
     (table_step (user_sessions w) (user_sessions w') \<and> steps_ok (w' # ws))"
| "steps_ok ws = True"

text \<open>The balance of a subscription, as the embedded read of \<open>endSession\<close> finds it.\<close>

definition balance :: "uuid \<Rightarrow> world \<Rightarrow> rat option" where
  "balance subId w =
     map_option hours_remaining (find (\<lambda>u. subscription_id u = subId) (user_subscriptions w))"

section \<open>Concrete data\<close>

text \<open>
  Customer 1 holds subscription 20, valid up to day 30; staff member 9 is signed in;
  the next generated id is 100.
\<close>

definition example_env :: "int \<Rightarrow> env" where
  "example_env t = \<lparr>client_now = t, server_now = t, gen_random_uuid = 100,
     auth_user = Some 9, fetch_rejects = False\<rparr>"

definition example_subscription :: "rat \<Rightarrow> subscription" where
  "example_subscription h = \<lparr>subscription_id = 20, subscription_user_id = 1,
     subscription_plan_id = 30, hours_remaining = h, start_date = 0, end_date = 30,
     subscription_status = SubActive\<rparr>"

definition example_session :: "uuid \<Rightarrow> int \<Rightarrow> session" where
  "example_session i t = \<lparr>session_id = i, session_user_id = 1,
     user_subscription_id = Some 20, start_time = t, end_time = None,
     duration_minutes = None, hours_deducted = 0, session_status = SessionActive,
     started_by = 9, ended_by = None\<rparr>"

definition example_world :: "session list \<Rightarrow> rat \<Rightarrow> world" where
  "example_world rows h = \<lparr>user_sessions = rows,
     user_subscriptions = [example_subscription h], console = []\<rparr>"

section \<open>Auxiliary facts\<close>

lemmas example_defs =
  example_env_def example_subscription_def example_session_def example_world_def

lemmas end_defs =
  endSession_def single_def update_session_def updated_sessions_def integer_column_def
  complete_session_def newHoursRemaining_def update_subscription_def notify_webhook_def
  caught_def

lemmas start_defs =
  startSession_def single_def insert_session_def utc_date_def caught_def

text \<open>The two ceilings as integer divisions, for evaluation.\<close>

lemma durationMinutes_div: "durationMinutes t1 t0 = - ((t0 - t1) div 60000)"
  using ceiling_divide_eq_div [of "t1 - t0" 60000, where ?'a = rat]
  by (simp add: durationMinutes_def)

lemma hoursDeducted_div: "hoursDeducted m = - ((- m) div 60)"
  using ceiling_divide_eq_div [of m 60, where ?'a = rat]
  by (simp add: hoursDeducted_def)

lemma single_one [simp]: "single [r] = Inr r"
  by (simp add: single_def)

lemma single_none [simp]: "single [] = Inl ''PGRST116''"
  by (simp add: single_def)

lemma single_Inr [simp]: "single rows = Inr r \<longleftrightarrow> rows = [r]"
  by (auto simp: single_def split: list.splits)

lemma single_Inl [simp]: "single rows = Inl c \<longleftrightarrow> c = ''PGRST116'' \<and> (\<forall>r. rows \<noteq> [r])"
  by (auto simp: single_def split: list.splits)

lemma user_subscriptions_notify [simp]:
  "user_subscriptions (notify_webhook e w) = user_subscriptions w"
  by (simp add: notify_webhook_def)

lemma user_sessions_notify [simp]:
  "user_sessions (notify_webhook e w) = user_sessions w"
  by (simp add: notify_webhook_def)

text \<open>The minutes fit the column exactly when the elapsed milliseconds lie in this range.\<close>

lemma integer_column_durationMinutes:
  "integer_column (durationMinutes t1 t0) \<longleftrightarrow>
   - (2147483649 * 60000) < t1 - t0 \<and> t1 - t0 \<le> 2147483647 * 60000"
  unfolding integer_column_def durationMinutes_div by simp arith

lemma balance_console [simp]: "balance subId (w\<lparr>console := c\<rparr>) = balance subId w"
  by (simp add: balance_def)

text \<open>The end operation when the table refuses the minutes.\<close>

lemma endSession_refused:
  assumes "single (filter (\<lambda>s. session_id s = sessionId) (user_sessions w)) = Inr session"
      and "\<not> integer_column (durationMinutes (client_now e) (start_time session))"
  shows "endSession e sessionId w =
         (Inl StoreError, w\<lparr>console := console w @ [''Error ending session:'']\<rparr>)"
  using assms by (simp add: endSession_def Let_def update_session_def caught_def)

lemma endSession_sessions:
  assumes "single (filter (\<lambda>s. session_id s = sessionId) (user_sessions w)) = Inr session"
      and "integer_column (durationMinutes (client_now e) (start_time session))"
  shows "user_sessions (snd (endSession e sessionId w)) =
         updated_sessions e sessionId (durationMinutes (client_now e) (start_time session))
           (hoursDeducted (durationMinutes (client_now e) (start_time session))) (user_sessions w)"
  using assms
  by (simp add: endSession_def Let_def update_session_def caught_def split: option.splits)

lemma filter_updated_sessions:
  "filter (\<lambda>s. session_id s = sessionId) (updated_sessions e sessionId m h rows) =
   map (complete_session e m h) (filter (\<lambda>s. session_id s = sessionId) rows)"
  by (induction rows) (simp_all add: updated_sessions_def complete_session_def)


lemma find_update_subscription:
  "find (\<lambda>u. subscription_id u = subId) (update_subscription subId h rows) =
   map_option (\<lambda>u. u\<lparr>hours_remaining := h\<rparr>) (find (\<lambda>u. subscription_id u = subId) rows)"
  by (induction rows) (simp_all add: update_subscription_def)

text \<open>The end operation on a session whose subscription link resolves.\<close>

lemma endSession_linked:
  assumes "single (filter (\<lambda>s. session_id s = sessionId) (user_sessions w)) = Inr session"
      and "user_subscription_id session = Some subId"
      and "find (\<lambda>u. subscription_id u = subId) (user_subscriptions w) = Some sub"
      and "integer_column (durationMinutes (client_now e) (start_time session))"
  shows "endSession e sessionId w =
         (Inr (durationMinutes (client_now e) (start_time session),
               hoursDeducted (durationMinutes (client_now e) (start_time session))),
          notify_webhook e
            (w\<lparr>user_sessions := updated_sessions e sessionId
                 (durationMinutes (client_now e) (start_time session))
                 (hoursDeducted (durationMinutes (client_now e) (start_time session)))
                 (user_sessions w),
               user_subscriptions := update_subscription subId
                 (newHoursRemaining (hours_remaining sub)
                    (hoursDeducted (durationMinutes (client_now e) (start_time session))))
                 (user_subscriptions w)\<rparr>))"
  using assms by (simp add: endSession_def Let_def update_session_def)

text \<open>The start operation with exactly one active session of the user.\<close>

lemma startSession_one_active:
  assumes "filter (\<lambda>s. session_user_id s = userId \<and> session_status s = SessionActive)
             (user_sessions w) = [existingSession]"
  shows "startSession e userId w = (Inl AlreadyActive, w)"
  using assms by (simp add: startSession_def)

section \<open>Billing arithmetic of the end operation\<close>

text \<open>
  Claim C1. A session ended by the end operation, started at \<open>T0\<close> and ended at
  \<open>T1 \<ge> T0\<close> (milliseconds), is persisted with \<^verbatim>\<open>end_time = T1\<close>,
  \<^verbatim>\<open>duration_minutes = ceil((T1 - T0) / 60 s)\<close> and
  \<^verbatim>\<open>hours_deducted = ceil(duration_minutes / 60)\<close>. The session is ended when the
  operation finds it and the table takes its minutes, that is up to \<open>2 ^ 31 - 1\<close>
  minutes; beyond that the row is left as it was (\<open>endSession_refused\<close>).
\<close>

theorem endSession_duration_and_hours:
  assumes "single (filter (\<lambda>s. session_id s = sessionId) (user_sessions w)) = Inr session"
      and "start_time session \<le> client_now e"
      and "client_now e - start_time session \<le> 2147483647 * 60000"
  shows "\<exists>s' d. single (filter (\<lambda>s. session_id s = sessionId)
                    (user_sessions (snd (endSession e sessionId w)))) = Inr s'
       \<and> session_status s' = SessionCompleted
       \<and> end_time s' = Some (client_now e)
       \<and> duration_minutes s' = Some d
       \<and> d = \<lceil>(of_int (client_now e - start_time session) / 1000 :: rat) / 60\<rceil>
       \<and> hours_deducted s' = of_int \<lceil>(of_int d :: rat) / 60\<rceil>"
proof -
  let ?d = "durationMinutes (client_now e) (start_time session)"
  let ?s = "complete_session e ?d (hoursDeducted ?d) session"
  have fits: "integer_column ?d"
    using assms(2,3) by (simp add: integer_column_durationMinutes)
  have "filter (\<lambda>s. session_id s = sessionId) (user_sessions (snd (endSession e sessionId w))) = [?s]"
    using assms(1) by (simp add: endSession_sessions [OF assms(1) fits] filter_updated_sessions)
  then have "single (filter (\<lambda>s. session_id s = sessionId)
                    (user_sessions (snd (endSession e sessionId w)))) = Inr ?s"
    by simp
  moreover have "?d = \<lceil>(of_int (client_now e - start_time session) / 1000 :: rat) / 60\<rceil>"
    by (simp add: durationMinutes_def)
  ultimately show ?thesis
    by (simp add: complete_session_def hoursDeducted_def)
qed

text \<open>The 61-minute session of customer 1: 61 minutes, 2 hours.\<close>

theorem endSession_duration_and_hours_witness:
  "single (filter (\<lambda>s. session_id s = 10) (user_sessions (example_world [example_session 10 0] 5)))
     = Inr (example_session 10 0)
   \<and> start_time (example_session 10 0) \<le> client_now (example_env 3660000)
   \<and> client_now (example_env 3660000) - start_time (example_session 10 0) \<le> 2147483647 * 60000
   \<and> (\<exists>s'. single (filter (\<lambda>s. session_id s = 10)
            (user_sessions (snd (endSession (example_env 3660000) 10
               (example_world [example_session 10 0] 5))))) = Inr s'
        \<and> session_status s' = SessionCompleted
        \<and> end_time s' = Some 3660000 \<and> duration_minutes s' = Some 61 \<and> hours_deducted s' = 2)"
proof -
  have found: "single (filter (\<lambda>s. session_id s = 10)
      (user_sessions (example_world [example_session 10 0] 5))) = Inr (example_session 10 0)"
    by (simp add: example_defs)
  have order: "start_time (example_session 10 0) \<le> client_now (example_env 3660000)"
    by (simp add: example_defs)
  have upper: "client_now (example_env 3660000) - start_time (example_session 10 0)
      \<le> 2147483647 * 60000"
    by (simp add: example_defs)
  from endSession_duration_and_hours [OF found order upper]
  obtain s' d where
    "single (filter (\<lambda>s. session_id s = 10)
        (user_sessions (snd (endSession (example_env 3660000) 10
           (example_world [example_session 10 0] 5))))) = Inr s'"
    "session_status s' = SessionCompleted"
    "end_time s' = Some (client_now (example_env 3660000))"
    "duration_minutes s' = Some d"
    "d = \<lceil>(of_int (client_now (example_env 3660000) - start_time (example_session 10 0)) / 1000 :: rat) / 60\<rceil>"
    "hours_deducted s' = of_int \<lceil>(of_int d :: rat) / 60\<rceil>"
    by blast
  moreover have "\<lceil>(of_int (client_now (example_env 3660000) - start_time (example_session 10 0)) / 1000 :: rat) / 60\<rceil> = 61"
    by (simp add: example_defs)
  moreover have "\<lceil>(of_int 61 :: rat) / 60\<rceil> = 2"
    using hoursDeducted_div [of 61] by (simp add: hoursDeducted_def)
  ultimately show ?thesis using found order upper by (auto simp: example_env_def)
qed

text \<open>
  Claim C5. The two worked examples: 61 minutes against 5 hours gives
  \<^verbatim>\<open>duration_minutes = 61\<close>, \<^verbatim>\<open>hours_deducted = 2\<close>, \<^verbatim>\<open>hours_remaining = 3\<close>; 125 minutes
  against 1 hour gives \<^verbatim>\<open>hours_deducted = 3\<close>, \<^verbatim>\<open>hours_remaining = 0\<close>.
\<close>

theorem endSession_billing_examples:
  "(let w' = snd (endSession (example_env (61 * 60 * 1000)) 10 (example_world [example_session 10 0] 5))
    in map duration_minutes (user_sessions w') = [Some 61]
     \<and> map hours_deducted (user_sessions w') = [2]
     \<and> map hours_remaining (user_subscriptions w') = [3])
   \<and> (let w' = snd (endSession (example_env (125 * 60 * 1000)) 10 (example_world [example_session 10 0] 1))
    in map duration_minutes (user_sessions w') = [Some 125]
     \<and> map hours_deducted (user_sessions w') = [3]
     \<and> map hours_remaining (user_subscriptions w') = [0])"
  by (simp add: end_defs example_defs durationMinutes_div hoursDeducted_div)




section \<open>Refusals of the start operation\<close>

text \<open>
  Claim C3. A user who has an active session is to be refused with \<open>AlreadyActive\<close>. With
  exactly one active session the code does so (\<open>startSession_one_active\<close>). With two
  active sessions the singular read answers \<^verbatim>\<open>PGRST116\<close>, which the code takes for
  ``no row'': customer 1, holding the active sessions 10 and 11, is given a third one.
\<close>

theorem startSession_two_active_sessions:
  "filter (\<lambda>s. session_user_id s = 1 \<and> session_status s = SessionActive)
     (user_sessions (example_world [example_session 10 0, example_session 11 0] 5))
     = [example_session 10 0, example_session 11 0]
   \<and> startSession (example_env 0) 1 (example_world [example_session 10 0, example_session 11 0] 5)
     = (Inr (), example_world [example_session 10 0, example_session 11 0, example_session 100 0] 5)"
  by (simp add: start_defs example_defs)

text \<open>
  Claim C4. A user without an active session, whose active subscription valid today has
  \<^verbatim>\<open>hours_remaining \<le> 0\<close>, is refused with \<open>InsufficientBalance\<close>, and nothing is
  written.
\<close>

theorem startSession_insufficient_balance:
  assumes "filter (\<lambda>s. session_user_id s = userId \<and> session_status s = SessionActive)
             (user_sessions w) = []"
      and "filter (\<lambda>u. subscription_user_id u = userId \<and> subscription_status u = SubActive
                       \<and> utc_date (client_now e) \<le> end_date u)
             (user_subscriptions w) = [subscription]"
      and "hours_remaining subscription \<le> 0"
  shows "startSession e userId w = (Inl InsufficientBalance, w)"
  using assms by (simp add: startSession_def)

text \<open>Customer 1 with a balance of exactly 0.\<close>

theorem startSession_insufficient_balance_witness:
  "filter (\<lambda>s. session_user_id s = 1 \<and> session_status s = SessionActive)
     (user_sessions (example_world [] 0)) = []
   \<and> filter (\<lambda>u. subscription_user_id u = 1 \<and> subscription_status u = SubActive
                \<and> utc_date (client_now (example_env 0)) \<le> end_date u)
       (user_subscriptions (example_world [] 0)) = [example_subscription 0]
   \<and> hours_remaining (example_subscription 0) \<le> 0
   \<and> startSession (example_env 0) 1 (example_world [] 0) = (Inl InsufficientBalance, example_world [] 0)"
proof -
  have a: "filter (\<lambda>s. session_user_id s = 1 \<and> session_status s = SessionActive)
     (user_sessions (example_world [] 0)) = []"
    by (simp add: example_defs)
  have b: "filter (\<lambda>u. subscription_user_id u = 1 \<and> subscription_status u = SubActive
                \<and> utc_date (client_now (example_env 0)) \<le> end_date u)
       (user_subscriptions (example_world [] 0)) = [example_subscription 0]"
    by (simp add: example_defs utc_date_def)
  have c: "hours_remaining (example_subscription 0) \<le> 0"
    by (simp add: example_defs)
  from a b c startSession_insufficient_balance [OF a b c] show ?thesis by blast
qed

text \<open>
  Claim C7. A user without an active session and without a subscription that is active
  and valid today is refused with \<open>NoSubscription\<close>, and nothing is written.
\<close>

theorem startSession_no_subscription:
  assumes "filter (\<lambda>s. session_user_id s = userId \<and> session_status s = SessionActive)
             (user_sessions w) = []"
      and "filter (\<lambda>u. subscription_user_id u = userId \<and> subscription_status u = SubActive
                       \<and> utc_date (client_now e) \<le> end_date u)
             (user_subscriptions w) = []"
  shows "startSession e userId w = (Inl NoSubscription, w)"
  using assms by (simp add: startSession_def)

text \<open>Customer 1 on day 31, one day after the subscription's \<^verbatim>\<open>end_date\<close>.\<close>

theorem startSession_no_subscription_witness:
  "filter (\<lambda>s. session_user_id s = 1 \<and> session_status s = SessionActive)
     (user_sessions (example_world [] 5)) = []
   \<and> filter (\<lambda>u. subscription_user_id u = 1 \<and> subscription_status u = SubActive
                \<and> utc_date (client_now (example_env 2678400000)) \<le> end_date u)
       (user_subscriptions (example_world [] 5)) = []
   \<and> startSession (example_env 2678400000) 1 (example_world [] 5)
       = (Inl NoSubscription, example_world [] 5)"
proof -
  have a: "filter (\<lambda>s. session_user_id s = 1 \<and> session_status s = SessionActive)
     (user_sessions (example_world [] 5)) = []"
    by (simp add: example_defs)
  have b: "filter (\<lambda>u. subscription_user_id u = 1 \<and> subscription_status u = SubActive
                \<and> utc_date (client_now (example_env 2678400000)) \<le> end_date u)
       (user_subscriptions (example_world [] 5)) = []"
    by (simp add: example_defs utc_date_def)
  from a b startSession_no_subscription [OF a b] show ?thesis by blast
qed

section \<open>The webhook\<close>

text \<open>
  Claim C6. When the end operation reaches the webhook (the session is found, the table
  takes its minutes, and its subscription link, if any, resolves), the run whose
  \<^verbatim>\<open>fetch\<close> rejects reports the same success as the run whose \<^verbatim>\<open>fetch\<close> resolves, and
  ends in the same state but for one console line: the tables written before the call
  are left as they were.
\<close>

theorem endSession_webhook_failure:
  assumes "single (filter (\<lambda>s. session_id s = sessionId) (user_sessions w)) = Inr session"
      and "case user_subscription_id session of
             None \<Rightarrow> True
           | Some subId \<Rightarrow> find (\<lambda>u. subscription_id u = subId) (user_subscriptions w) \<noteq> None"
      and "- (2147483649 * 60000) < client_now e - start_time session"
      and "client_now e - start_time session \<le> 2147483647 * 60000"
  shows "\<exists>minutes hours w'.
           endSession (e\<lparr>fetch_rejects := False\<rparr>) sessionId w = (Inr (minutes, hours), w')
         \<and> endSession (e\<lparr>fetch_rejects := True\<rparr>) sessionId w =
             (Inr (minutes, hours), w'\<lparr>console := console w' @ [''Webhook failed:'']\<rparr>)"
proof -
  have fits: "integer_column (durationMinutes (client_now e) (start_time session))"
    using assms(3,4) by (simp add: integer_column_durationMinutes)
  show ?thesis
  proof (cases "user_subscription_id session")
    case None
    with assms(1) fits show ?thesis
      by (simp add: endSession_def Let_def notify_webhook_def update_session_def
          updated_sessions_def complete_session_def)
  next
    case (Some subId)
    with assms(2) obtain sub
      where "find (\<lambda>u. subscription_id u = subId) (user_subscriptions w) = Some sub"
      by auto
    with assms(1) Some fits show ?thesis
      by (simp add: endSession_def Let_def notify_webhook_def update_session_def
          updated_sessions_def complete_session_def)
  qed
qed

text \<open>The 61-minute session again: both runs report 61 minutes and 2 hours.\<close>

theorem endSession_webhook_failure_witness:
  "single (filter (\<lambda>s. session_id s = 10) (user_sessions (example_world [example_session 10 0] 5)))
     = Inr (example_session 10 0)
   \<and> (case user_subscription_id (example_session 10 0) of
         None \<Rightarrow> True
       | Some subId \<Rightarrow> find (\<lambda>u. subscription_id u = subId)
            (user_subscriptions (example_world [example_session 10 0] 5)) \<noteq> None)
   \<and> - (2147483649 * 60000) < client_now (example_env 3660000) - start_time (example_session 10 0)
   \<and> client_now (example_env 3660000) - start_time (example_session 10 0) \<le> 2147483647 * 60000
   \<and> (\<exists>w'. endSession ((example_env 3660000)\<lparr>fetch_rejects := False\<rparr>) 10
              (example_world [example_session 10 0] 5) = (Inr (61, 2), w')
          \<and> endSession ((example_env 3660000)\<lparr>fetch_rejects := True\<rparr>) 10
              (example_world [example_session 10 0] 5)
              = (Inr (61, 2), w'\<lparr>console := [''Webhook failed:'']\<rparr>)
          \<and> map session_status (user_sessions w') = [SessionCompleted]
          \<and> map hours_remaining (user_subscriptions w') = [3]
          \<and> console w' = [])"
proof -
  have found: "single (filter (\<lambda>s. session_id s = 10)
      (user_sessions (example_world [example_session 10 0] 5))) = Inr (example_session 10 0)"
    by (simp add: example_defs)
  have link: "case user_subscription_id (example_session 10 0) of
         None \<Rightarrow> True
       | Some subId \<Rightarrow> find (\<lambda>u. subscription_id u = subId)
            (user_subscriptions (example_world [example_session 10 0] 5)) \<noteq> None"
    by (simp add: example_defs)
  have lower: "- (2147483649 * 60000)
      < client_now (example_env 3660000) - start_time (example_session 10 0)"
    by (simp add: example_defs)
  have upper: "client_now (example_env 3660000) - start_time (example_session 10 0)
      \<le> 2147483647 * 60000"
    by (simp add: example_defs)
  from endSession_webhook_failure [OF found link lower upper]
  obtain minutes hours w' where
    ok: "endSession ((example_env 3660000)\<lparr>fetch_rejects := False\<rparr>) 10
           (example_world [example_session 10 0] 5) = (Inr (minutes, hours), w')"
    and ko: "endSession ((example_env 3660000)\<lparr>fetch_rejects := True\<rparr>) 10
           (example_world [example_session 10 0] 5)
           = (Inr (minutes, hours), w'\<lparr>console := console w' @ [''Webhook failed:'']\<rparr>)"
    by blast
  have run: "endSession ((example_env 3660000)\<lparr>fetch_rejects := False\<rparr>) 10
           (example_world [example_session 10 0] 5)
     = (Inr (61, 2),
        \<lparr>user_sessions = [(example_session 10 0)\<lparr>end_time := Some 3660000,
            duration_minutes := Some 61, hours_deducted := 2,
            session_status := SessionCompleted, ended_by := Some 9\<rparr>],
         user_subscriptions = [example_subscription 3], console = []\<rparr>)"
    by (simp add: end_defs example_defs durationMinutes_div hoursDeducted_div)
  from ok run have vals: "minutes = 61" "hours = 2"
    and w': "w' = \<lparr>user_sessions = [(example_session 10 0)\<lparr>end_time := Some 3660000,
            duration_minutes := Some 61, hours_deducted := 2,
            session_status := SessionCompleted, ended_by := Some 9\<rparr>],
         user_subscriptions = [example_subscription 3], console = []\<rparr>"
    by simp_all
  have "map session_status (user_sessions w') = [SessionCompleted]"
       "map hours_remaining (user_subscriptions w') = [3]" "console w' = []"
    by (simp_all add: w' example_defs)
  with found link lower upper ok ko vals show ?thesis by simp
qed

section \<open>The two ceilings compose\<close>

lemma ceil_hours_of_ms:
  "hoursDeducted (durationMinutes t1 t0) = \<lceil>(of_int (t1 - t0) / 1000 :: rat) / 3600\<rceil>"
proof -
  have "hoursDeducted (durationMinutes t1 t0) = - (((t0 - t1) div 60000) div 60)"
    by (simp add: durationMinutes_div hoursDeducted_div)
  also have "\<dots> = - ((t0 - t1) div (60000 * 60))"
    by (simp add: zdiv_zmult2_eq)
  also have "\<dots> = \<lceil>(of_int (t1 - t0) :: rat) / of_int 3600000\<rceil>"
    using ceiling_divide_eq_div [of "t1 - t0" 3600000, where ?'a = rat] by simp
  finally show ?thesis by simp
qed

lemma hoursDeducted_nonneg:
  assumes "t0 \<le> t1"
  shows "0 \<le> hoursDeducted (durationMinutes t1 t0)"
proof -
  have "(0::rat) \<le> (of_int (t1 - t0) / 1000) / 3600"
    using assms by simp
  then show ?thesis
    unfolding ceil_hours_of_ms by (simp add: zero_le_ceiling)
qed

lemma hoursDeducted_positive:
  assumes "t0 < t1"
  shows "1 \<le> hoursDeducted (durationMinutes t1 t0)"
proof -
  have "(0::rat) < (of_int (t1 - t0) / 1000) / 3600"
    using assms by simp
  then have "0 < \<lceil>(of_int (t1 - t0) / 1000 :: rat) / 3600\<rceil>"
    by (simp only: zero_less_ceiling)
  then show ?thesis
    unfolding ceil_hours_of_ms by linarith
qed

text \<open>
  Claim C9 says that every session with positive elapsed time is billed
  \<open>ceil (ceil (s / 60) / 60) = ceil (s / 3600)\<close> hours, at least one. The two ceilings do
  compose for every \<open>s\<close> (\<open>ceil_hours_of_ms\<close>), but a session of \<open>2 ^ 31\<close> minutes is not
  billed: the 35791395 hours are computed, the update of the row is refused, the row
  stays active and its \<^verbatim>\<open>hours_deducted\<close> stays 0.
\<close>

theorem endSession_overlong_not_billed:
  "start_time (example_session 10 0) < client_now (example_env (2147483648 * 60000))
   \<and> \<lceil>(of_int (client_now (example_env (2147483648 * 60000))
          - start_time (example_session 10 0)) / 1000 :: rat) / 3600\<rceil> = 35791395
   \<and> fst (endSession (example_env (2147483648 * 60000)) 10
        (example_world [example_session 10 0] 5)) = Inl StoreError
   \<and> map hours_deducted (user_sessions (snd (endSession (example_env (2147483648 * 60000)) 10
        (example_world [example_session 10 0] 5)))) = [0]
   \<and> map session_status (user_sessions (snd (endSession (example_env (2147483648 * 60000)) 10
        (example_world [example_session 10 0] 5)))) = [SessionActive]"
proof -
  have "\<lceil>(of_int (client_now (example_env (2147483648 * 60000))
          - start_time (example_session 10 0)) / 1000 :: rat) / 3600\<rceil> = 35791395"
    using ceil_hours_of_ms [of "2147483648 * 60000" 0]
    by (simp add: example_defs durationMinutes_div hoursDeducted_div)
  then show ?thesis
    by (simp add: end_defs example_defs durationMinutes_div hoursDeducted_div)
qed

text \<open>
  Claim C9, amended. For a session ended \<open>s \<ge> 0\<close> seconds after its start, of at most
  \<open>2 ^ 31 - 1\<close> minutes, the persisted \<^verbatim>\<open>hours_deducted\<close> is \<open>ceil (ceil (s / 60) / 60)\<close>,
  which is \<open>ceil (s / 3600)\<close>; with positive elapsed time it is at least one hour.
\<close>

theorem endSession_hours_single_ceiling:
  assumes "single (filter (\<lambda>s. session_id s = sessionId) (user_sessions w)) = Inr session"
      and "start_time session \<le> client_now e"
      and "client_now e - start_time session \<le> 2147483647 * 60000"
  shows "\<exists>s'. single (filter (\<lambda>s. session_id s = sessionId)
                    (user_sessions (snd (endSession e sessionId w)))) = Inr s'
       \<and> (let seconds = (of_int (client_now e - start_time session) / 1000 :: rat)
          in hours_deducted s' = of_int \<lceil>(of_int \<lceil>seconds / 60\<rceil> :: rat) / 60\<rceil>
           \<and> hours_deducted s' = of_int \<lceil>seconds / 3600\<rceil>
           \<and> (0 < seconds \<longrightarrow> 1 \<le> hours_deducted s'))"
proof -
  let ?d = "durationMinutes (client_now e) (start_time session)"
  let ?s = "complete_session e ?d (hoursDeducted ?d) session"
  have fits: "integer_column ?d"
    using assms(2,3) by (simp add: integer_column_durationMinutes)
  have "filter (\<lambda>s. session_id s = sessionId) (user_sessions (snd (endSession e sessionId w))) = [?s]"
    using assms(1) by (simp add: endSession_sessions [OF assms(1) fits] filter_updated_sessions)
  then have row: "single (filter (\<lambda>s. session_id s = sessionId)
                    (user_sessions (snd (endSession e sessionId w)))) = Inr ?s"
    by simp
  have hd: "hours_deducted ?s = of_int (hoursDeducted ?d)"
    by (simp add: complete_session_def)
  have two: "hoursDeducted ?d =
      \<lceil>(of_int \<lceil>(of_int (client_now e - start_time session) / 1000 :: rat) / 60\<rceil> :: rat) / 60\<rceil>"
    by (simp add: hoursDeducted_def durationMinutes_def)
  have one: "hoursDeducted ?d = \<lceil>(of_int (client_now e - start_time session) / 1000 :: rat) / 3600\<rceil>"
    by (rule ceil_hours_of_ms)
  have pos: "1 \<le> hours_deducted ?s"
    if "0 < (of_int (client_now e - start_time session) / 1000 :: rat)"
  proof -
    from that have "start_time session < client_now e" by simp
    from hoursDeducted_positive [OF this] show ?thesis
      unfolding hd by simp
  qed
  show ?thesis
    unfolding Let_def
    using row hd two one pos by metis
qed

text \<open>A session ended one millisecond after its start is billed one hour.\<close>

theorem endSession_hours_single_ceiling_witness:
  "single (filter (\<lambda>s. session_id s = 10) (user_sessions (example_world [example_session 10 0] 5)))
     = Inr (example_session 10 0)
   \<and> start_time (example_session 10 0) \<le> client_now (example_env 1)
   \<and> client_now (example_env 1) - start_time (example_session 10 0) \<le> 2147483647 * 60000
   \<and> (\<exists>s'. single (filter (\<lambda>s. session_id s = 10)
            (user_sessions (snd (endSession (example_env 1) 10
               (example_world [example_session 10 0] 5))))) = Inr s'
        \<and> hours_deducted s' = 1)"
proof -
  have found: "single (filter (\<lambda>s. session_id s = 10)
      (user_sessions (example_world [example_session 10 0] 5))) = Inr (example_session 10 0)"
    by (simp add: example_defs)
  have order: "start_time (example_session 10 0) \<le> client_now (example_env 1)"
    by (simp add: example_defs)
  have upper: "client_now (example_env 1) - start_time (example_session 10 0)
      \<le> 2147483647 * 60000"
    by (simp add: example_defs)
  from endSession_hours_single_ceiling [OF found order upper]
  obtain s' where
    row: "single (filter (\<lambda>s. session_id s = 10)
        (user_sessions (snd (endSession (example_env 1) 10
           (example_world [example_session 10 0] 5))))) = Inr s'"
    and hd: "hours_deducted s' = of_int \<lceil>(of_int (client_now (example_env 1)
                - start_time (example_session 10 0)) / 1000 :: rat) / 3600\<rceil>"
    unfolding Let_def by blast
  have "\<lceil>(of_int (client_now (example_env 1)
                - start_time (example_session 10 0)) / 1000 :: rat) / 3600\<rceil> = 1"
    using ceil_hours_of_ms [of 1 0]
    by (simp add: example_defs durationMinutes_div hoursDeducted_div)
  with hd have "hours_deducted s' = 1" by simp
  with found order upper row show ?thesis by blast
qed

text \<open>
  Claim C10 says that the end operation never increases a balance. It fails in two ways:
  a balance of \<open>-1\<close> is clamped up to \<open>0\<close>; and a session whose \<^verbatim>\<open>start_time\<close> (database
  clock) lies two hours after the end time (browser clock) has \<open>-2\<close> hours deducted, which
  takes a balance of \<open>5\<close> to \<open>7\<close>.
\<close>

theorem endSession_balance_increases:
  "balance 20 (example_world [example_session 10 0] (- 1)) = Some (- 1)
   \<and> balance 20 (snd (endSession (example_env 60000) 10
        (example_world [example_session 10 0] (- 1)))) = Some 0
   \<and> \<not> (0::rat) \<le> - 1
   \<and> balance 20 (example_world [example_session 10 7200000] 5) = Some 5
   \<and> balance 20 (snd (endSession (example_env 0) 10
        (example_world [example_session 10 7200000] 5))) = Some 7
   \<and> \<not> (7::rat) \<le> 5"
  by (simp add: balance_def end_defs example_defs durationMinutes_div hoursDeducted_div)

text \<open>
  Claim C10, amended: when the balance before is not negative and the session does not
  end before its start, the balance after is at most the balance before.
\<close>

theorem endSession_balance_not_increased:
  assumes "single (filter (\<lambda>s. session_id s = sessionId) (user_sessions w)) = Inr session"
      and "user_subscription_id session = Some subId"
      and "find (\<lambda>u. subscription_id u = subId) (user_subscriptions w) = Some sub"
      and "0 \<le> hours_remaining sub"
      and "start_time session \<le> client_now e"
  shows "\<exists>after. balance subId (snd (endSession e sessionId w)) = Some after
         \<and> after \<le> hours_remaining sub
         \<and> balance subId w = Some (hours_remaining sub)"
proof -
  let ?h = "hoursDeducted (durationMinutes (client_now e) (start_time session))"
  have before: "balance subId w = Some (hours_remaining sub)"
    by (simp add: balance_def assms(3))
  show ?thesis
  proof (cases "integer_column (durationMinutes (client_now e) (start_time session))")
    case True
    have "user_subscriptions (snd (endSession e sessionId w)) =
        update_subscription subId (newHoursRemaining (hours_remaining sub) ?h) (user_subscriptions w)"
      by (simp add: endSession_linked [OF assms(1,2,3) True])
    then have after: "balance subId (snd (endSession e sessionId w)) =
        Some (newHoursRemaining (hours_remaining sub) ?h)"
      by (simp add: balance_def find_update_subscription assms(3))
    have "0 \<le> ?h"
      using assms(5) by (rule hoursDeducted_nonneg)
    then have "(0::rat) \<le> of_int ?h" by simp
    with assms(4) have "newHoursRemaining (hours_remaining sub) ?h \<le> hours_remaining sub"
      by (simp add: newHoursRemaining_def)
    with before after show ?thesis by blast
  next
    case False
    have "balance subId (snd (endSession e sessionId w)) = Some (hours_remaining sub)"
      by (simp add: endSession_refused [OF assms(1) False] before)
    with before show ?thesis by simp
  qed
qed

text \<open>The 61-minute session against 5 hours.\<close>

theorem endSession_balance_not_increased_witness:
  "single (filter (\<lambda>s. session_id s = 10) (user_sessions (example_world [example_session 10 0] 5)))
     = Inr (example_session 10 0)
   \<and> user_subscription_id (example_session 10 0) = Some 20
   \<and> find (\<lambda>u. subscription_id u = 20) (user_subscriptions (example_world [example_session 10 0] 5))
     = Some (example_subscription 5)
   \<and> 0 \<le> hours_remaining (example_subscription 5)
   \<and> start_time (example_session 10 0) \<le> client_now (example_env 3660000)
   \<and> (\<exists>after. balance 20 (snd (endSession (example_env 3660000) 10
          (example_world [example_session 10 0] 5))) = Some after \<and> after \<le> 5)"
proof -
  have found: "single (filter (\<lambda>s. session_id s = 10)
      (user_sessions (example_world [example_session 10 0] 5))) = Inr (example_session 10 0)"
    by (simp add: example_defs)
  have link: "user_subscription_id (example_session 10 0) = Some 20"
    by (simp add: example_defs)
  have sub: "find (\<lambda>u. subscription_id u = 20)
      (user_subscriptions (example_world [example_session 10 0] 5)) = Some (example_subscription 5)"
    by (simp add: example_defs)
  have nonneg: "0 \<le> hours_remaining (example_subscription 5)"
    by (simp add: example_defs)
  have order: "start_time (example_session 10 0) \<le> client_now (example_env 3660000)"
    by (simp add: example_defs)
  have five: "hours_remaining (example_subscription 5) = 5"
    by (simp add: example_defs)
  from endSession_balance_not_increased [OF found link sub nonneg order]
  have "\<exists>after. balance 20 (snd (endSession (example_env 3660000) 10
          (example_world [example_session 10 0] 5))) = Some after \<and> after \<le> 5"
    unfolding five by blast
  with found link sub nonneg order show ?thesis by blast
qed

section \<open>Status transitions\<close>

lemma row_step_same: "row_step s s"
  by (simp add: row_step_def)

lemma row_step_complete: "row_step s (complete_session e m h s)"
  by (cases "session_status s") (simp_all add: row_step_def complete_session_def)

lemma table_step_same: "table_step rows rows"
  by (induction rows) (simp_all add: row_step_same)

lemma table_step_insert:
  "list_all (\<lambda>s. session_status s = SessionActive) new \<Longrightarrow> table_step rows (rows @ new)"
  by (induction rows) (simp_all add: row_step_same)

lemma table_step_update: "table_step rows (updated_sessions e sessionId m h rows)"
  by (induction rows) (simp_all add: updated_sessions_def row_step_same row_step_complete)

lemma startSession_table_step:
  "table_step (user_sessions w) (user_sessions (snd (startSession e userId w)))"
  by (simp add: startSession_def caught_def insert_session_def table_step_same table_step_insert
      split: sum.split option.split)

lemma endSession_table_step:
  "table_step (user_sessions w) (user_sessions (snd (endSession e sessionId w)))"
proof (cases "single (filter (\<lambda>s. session_id s = sessionId) (user_sessions w))")
  case (Inl code)
  show ?thesis
    unfolding endSession_def Inl by (simp add: caught_def table_step_same)
next
  case (Inr session)
  show ?thesis
  proof (cases "integer_column (durationMinutes (client_now e) (start_time session))")
    case True
    show ?thesis
      unfolding endSession_sessions [OF Inr True] by (rule table_step_update)
  next
    case False
    show ?thesis
      by (simp add: endSession_refused [OF Inr False] table_step_same)
  qed
qed

lemma perform_table_step: "table_step (user_sessions w) (user_sessions (perform a w))"
proof (cases a)
  case (Pair e act)
  then show ?thesis
    by (cases act) (simp_all add: startSession_table_step endSession_table_step)
qed

lemma trace_head: "\<exists>ws. trace as w = w # ws"
  by (cases as) simp_all

lemma table_step_nth:
  "table_step rows rows' \<Longrightarrow> i < length rows \<Longrightarrow>
   i < length rows' \<and> row_step (rows ! i) (rows' ! i)"
proof (induction rows rows' arbitrary: i rule: table_step.induct)
  case (1 new)
  then show ?case by simp
next
  case (2 s rows)
  then show ?case by simp
next
  case (3 s rows s' rows')
  then show ?case by (cases i) simp_all
qed

lemma last_trace_Cons: "last (trace (a # as) w) = last (trace as (perform a w))"
proof -
  obtain ws where "trace as (perform a w) = perform a w # ws"
    using trace_head by blast
  then show ?thesis by simp
qed

lemma completed_stays:
  "i < length (user_sessions w) \<Longrightarrow>
   session_status (user_sessions w ! i) = SessionCompleted \<Longrightarrow>
   i < length (user_sessions (last (trace as w)))
   \<and> session_id (user_sessions (last (trace as w)) ! i) = session_id (user_sessions w ! i)
   \<and> session_status (user_sessions (last (trace as w)) ! i) = SessionCompleted"
proof (induction as arbitrary: w)
  case Nil
  then show ?case by simp
next
  case (Cons a as)
  from table_step_nth [OF perform_table_step Cons.prems(1), of a]
  have len: "i < length (user_sessions (perform a w))"
    and row: "row_step (user_sessions w ! i) (user_sessions (perform a w) ! i)"
    by simp_all
  from row Cons.prems(2)
  have same: "session_id (user_sessions (perform a w) ! i) = session_id (user_sessions w ! i)"
    and fin: "session_status (user_sessions (perform a w) ! i) = SessionCompleted"
    by (simp_all add: row_step_def)
  from Cons.IH [OF len fin] same show ?case
    by (simp only: last_trace_Cons)
qed

text \<open>
  Claim C8. Along every sequence of start and end operations, from any state, each
  step keeps every session row, changes the status of a row only from active to
  completed, and adds only active rows; a row that is completed is still there, and
  still completed, after the whole sequence; and the end operation leaves the session
  it finds completed, when the table takes its minutes (otherwise the row is left as
  it was, which is a step of the first kind).
\<close>

theorem session_status_only_completes:
  "steps_ok (trace as w)
   \<and> (\<forall>i < length (user_sessions w).
        session_status (user_sessions w ! i) = SessionCompleted \<longrightarrow>
        i < length (user_sessions (last (trace as w)))
        \<and> session_id (user_sessions (last (trace as w)) ! i) = session_id (user_sessions w ! i)
        \<and> session_status (user_sessions (last (trace as w)) ! i) = SessionCompleted)
   \<and> (\<forall>e sessionId session.
        single (filter (\<lambda>s. session_id s = sessionId) (user_sessions w)) = Inr session \<and>
        - (2147483649 * 60000) < client_now e - start_time session \<and>
        client_now e - start_time session \<le> 2147483647 * 60000 \<longrightarrow>
        map session_status (filter (\<lambda>s. session_id s = sessionId)
          (user_sessions (perform (e, EndSession sessionId) w))) = [SessionCompleted])"
proof -
  have steps: "steps_ok (trace as v)" for v
  proof (induction as arbitrary: v)
    case Nil
    show ?case by simp
  next
    case (Cons a as)
    obtain ws where ws: "trace as (perform a v) = perform a v # ws"
      using trace_head by blast
    from Cons.IH [of "perform a v"] show ?case
      by (simp add: ws perform_table_step)
  qed
  have stays: "\<forall>i < length (user_sessions w).
        session_status (user_sessions w ! i) = SessionCompleted \<longrightarrow>
        i < length (user_sessions (last (trace as w)))
        \<and> session_id (user_sessions (last (trace as w)) ! i) = session_id (user_sessions w ! i)
        \<and> session_status (user_sessions (last (trace as w)) ! i) = SessionCompleted"
    using completed_stays by blast
  have ended: "map session_status (filter (\<lambda>s. session_id s = sessionId)
          (user_sessions (perform (e, EndSession sessionId) w))) = [SessionCompleted]"
    if found: "single (filter (\<lambda>s. session_id s = sessionId) (user_sessions w)) = Inr session"
      and lower: "- (2147483649 * 60000) < client_now e - start_time session"
      and upper: "client_now e - start_time session \<le> 2147483647 * 60000"
    for e sessionId session
  proof -
    have fits: "integer_column (durationMinutes (client_now e) (start_time session))"
      using lower upper by (simp add: integer_column_durationMinutes)
    show ?thesis
      using found
      by (simp add: endSession_sessions [OF found fits] filter_updated_sessions
          complete_session_def)
  qed
  from steps stays ended show ?thesis by blast
qed

text \<open>
  Customer 1 is started, ended, and ended once more: the status of session 100 reads
  active, completed, completed. A session that is completed at the outset stays so
  when it is ended again.
\<close>

theorem session_status_only_completes_witness:
  "steps_ok (trace [(example_env 0, StartSession 1), (example_env 3660000, EndSession 100),
                    (example_env 7200000, EndSession 100)] (example_world [] 5))
   \<and> map (map session_status \<circ> user_sessions)
        (trace [(example_env 0, StartSession 1), (example_env 3660000, EndSession 100),
                (example_env 7200000, EndSession 100)] (example_world [] 5))
      = [[], [SessionActive], [SessionCompleted], [SessionCompleted]]
   \<and> single (filter (\<lambda>s. session_id s = 10) (user_sessions (example_world [example_session 10 0] 5)))
       = Inr (example_session 10 0)
   \<and> - (2147483649 * 60000) < client_now (example_env 3660000) - start_time (example_session 10 0)
   \<and> client_now (example_env 3660000) - start_time (example_session 10 0) \<le> 2147483647 * 60000
   \<and> map session_status (filter (\<lambda>s. session_id s = 10)
          (user_sessions (perform (example_env 3660000, EndSession 10)
             (example_world [example_session 10 0] 5)))) = [SessionCompleted]
   \<and> (0::nat) < length (user_sessions
          (example_world [(example_session 10 0)\<lparr>session_status := SessionCompleted\<rparr>] 5))
   \<and> session_status (user_sessions
          (example_world [(example_session 10 0)\<lparr>session_status := SessionCompleted\<rparr>] 5) ! 0)
       = SessionCompleted
   \<and> session_status (user_sessions (last (trace [(example_env 7200000, EndSession 10)]
          (example_world [(example_session 10 0)\<lparr>session_status := SessionCompleted\<rparr>] 5))) ! 0)
       = SessionCompleted"
proof -
  let ?ops = "[(example_env 0, StartSession 1), (example_env 3660000, EndSession 100),
               (example_env 7200000, EndSession 100)]"
  let ?again = "[(example_env 7200000, EndSession 10)]"
  let ?finished = "example_world [(example_session 10 0)\<lparr>session_status := SessionCompleted\<rparr>] 5"
  have found: "single (filter (\<lambda>s. session_id s = 10)
      (user_sessions (example_world [example_session 10 0] 5))) = Inr (example_session 10 0)"
    by (simp add: example_defs)
  have lower: "- (2147483649 * 60000)
      < client_now (example_env 3660000) - start_time (example_session 10 0)"
    by (simp add: example_defs)
  have upper: "client_now (example_env 3660000) - start_time (example_session 10 0)
      \<le> 2147483647 * 60000"
    by (simp add: example_defs)
  have run: "map (map session_status \<circ> user_sessions) (trace ?ops (example_world [] 5))
      = [[], [SessionActive], [SessionCompleted], [SessionCompleted]]"
    by (simp add: start_defs end_defs example_defs durationMinutes_div hoursDeducted_div)
  have len: "(0::nat) < length (user_sessions ?finished)"
    by (simp add: example_defs)
  have fin: "session_status (user_sessions ?finished ! 0) = SessionCompleted"
    by (simp add: example_defs)
  from session_status_only_completes [of ?ops "example_world [example_session 10 0] 5"]
  have "map session_status (filter (\<lambda>s. session_id s = 10)
          (user_sessions (perform (example_env 3660000, EndSession 10)
             (example_world [example_session 10 0] 5)))) = [SessionCompleted]"
    using found lower upper by blast
  moreover from session_status_only_completes [of ?ops "example_world [] 5"]
  have "steps_ok (trace ?ops (example_world [] 5))"
    by blast
  moreover from session_status_only_completes [of ?again ?finished]
  have "session_status (user_sessions (last (trace ?again ?finished)) ! 0) = SessionCompleted"
    using len fin by blast
  ultimately show ?thesis using found lower upper run len fin by blast
qed

end
